theory Spec2Isabelle
  imports Main "HOL-Library.Char_ord" "HOL-Library.List_Lexorder" "HOL-Library.Sublist"
begin

section \<open>LocalVault: values, entries and text\<close>

text \<open>
  The repository holds the password manager in two revisions that the claims cite:
  \<^verbatim>\<open>src/script.js\<close> and the second file of \<^verbatim>\<open>src/unnamed/part_000\<close> (lines 435 to 1294).
  Functions that are the same in both are modelled once under the source's name. A function
  that differs between the two in a detail takes the revision as its first argument. The two
  parsers of delimited text differ wholesale: \<open>parseCSV\<close> is the one of \<^verbatim>\<open>script.js\<close>,
  \<open>parseCSV2\<close> the one of \<^verbatim>\<open>part_000\<close>. The first file of \<^verbatim>\<open>part_000\<close>
  (lines 1 to 434) is an earlier revision without import, export and filter; its
  \<^verbatim>\<open>updatePassword\<close> and comparator are those of \<^verbatim>\<open>script.js\<close>.

  A JavaScript string is modelled as a \<open>string\<close>, one \<open>char\<close> per code unit; the model
  covers text whose code units are below 256. Field values are the scalar JavaScript values;
  numbers are the integer-valued ones. Nested objects, arrays and dates are outside the model.
\<close>

datatype revision = ScriptJs | Part000

datatype jsval = JUndefined | JNull | JBool bool | JNum int | JStr string

text \<open>
  An entry is a plain object: its own properties in insertion order. \<open>get_prop e k\<close> is
  \<^verbatim>\<open>e[k]\<close>, \<open>set_prop k v e\<close> is \<^verbatim>\<open>e[k] = v\<close> (an existing key keeps its place). Keys that
  JavaScript treats specially (array indices, \<^verbatim>\<open>__proto__\<close>) are outside the model.
\<close>

type_synonym entry = "(string \<times> jsval) list"

definition get_prop :: "entry \<Rightarrow> string \<Rightarrow> jsval" where
  "get_prop e k = (case map_of e k of None \<Rightarrow> JUndefined | Some v \<Rightarrow> v)"

fun set_prop :: "string \<Rightarrow> jsval \<Rightarrow> entry \<Rightarrow> entry" where
  "set_prop k v [] = [(k, v)]"
| "set_prop k v (p # ps) = (if fst p = k then (k, v) # ps else p # set_prop k v ps)"

abbreviation dquote :: char where
  "dquote \<equiv> CHR 0x22"

abbreviation backslash :: char where
  "backslash \<equiv> CHR 0x5C"

abbreviation LF :: char where
  "LF \<equiv> CHR 0x0A"

abbreviation CR :: char where
  "CR \<equiv> CHR 0x0D"

text \<open>\<^verbatim>\<open>String.prototype.trim\<close> removes white space and line terminators at both ends.\<close>

definition is_ws :: "char \<Rightarrow> bool" where
  "is_ws c = (of_char c \<in> {9, 10, 11, 12, 13, 32, 160 :: nat})"

definition trim :: "string \<Rightarrow> string" where
  "trim s = rev (dropWhile is_ws (rev (dropWhile is_ws s)))"

text \<open>\<^verbatim>\<open>s.split(sep)\<close> for a one-character separator: always at least one piece.\<close>

fun split :: "char \<Rightarrow> string \<Rightarrow> string list" where
  "split sep [] = [[]]"
| "split sep (c # cs) =
     (if c = sep then [] # split sep cs
      else (case split sep cs of [] \<Rightarrow> [[c]] | p # ps \<Rightarrow> (c # p) # ps))"

text \<open>\<^verbatim>\<open>pieces.join(sep)\<close> on an array of strings.\<close>

fun join :: "string \<Rightarrow> string list \<Rightarrow> string" where
  "join sep [] = []"
| "join sep [p] = p"
| "join sep (p # q # ps) = p @ sep @ join sep (q # ps)"

section \<open>Delimited-text import: \<^verbatim>\<open>parseCSV\<close>\<close>

text \<open>
  The object a data row becomes: \<^verbatim>\<open>obj[headers[j]] = values[j]\<close> for \<open>j\<close> from 0 up,
  called only when both arrays have the same length.
\<close>

fun build_object :: "string list \<Rightarrow> string list \<Rightarrow> entry \<Rightarrow> entry" where
  "build_object (h # hs) (v # vs) obj = build_object hs vs (set_prop h (JStr v) obj)"
| "build_object _ _ obj = obj"

text \<open>
  \<^verbatim>\<open>parseCSV\<close> of \<^verbatim>\<open>script.js\<close> (lines 291 to 308): split at every line feed and every comma,
  trim every piece, keep the rows that have as many pieces as the header.
\<close>

definition parseCSV :: "string \<Rightarrow> entry list" where
  "parseCSV csv =
     (let lines = split LF csv;
          headers = map trim (split (CHR '','') (hd lines))
      in concat (map (\<lambda>line.
           (let values = map trim (split (CHR '','') line)
            in if length values = length headers then [build_object headers values []] else []))
           (tl lines)))"

text \<open>
  \<^verbatim>\<open>parseRow\<close> of \<^verbatim>\<open>part_000\<close> (lines 761 to 791): the loop over the characters of a row,
  with the fields pushed so far, the current field and the \<^verbatim>\<open>inQuotes\<close> flag.
\<close>

fun parseRow_loop :: "string list \<Rightarrow> string \<Rightarrow> bool \<Rightarrow> string \<Rightarrow> string list" where
  "parseRow_loop fields cur inQuotes [] = fields @ [cur]"
| "parseRow_loop fields cur inQuotes (ch # rest) =
     (if inQuotes then
        (if ch = dquote then
           (if rest \<noteq> [] \<and> hd rest = dquote
            then parseRow_loop fields (cur @ [dquote]) True (tl rest)
            else parseRow_loop fields cur False rest)
         else parseRow_loop fields (cur @ [ch]) True rest)
      else
        (if ch = dquote then parseRow_loop fields cur True rest
         else if ch = CHR '','' then parseRow_loop (fields @ [cur]) [] False rest
         else parseRow_loop fields (cur @ [ch]) False rest))"

definition parseRow :: "string \<Rightarrow> string list" where
  "parseRow row = parseRow_loop [] [] False row"

text \<open>\<^verbatim>\<open>csv.replace(/\r\n/g, '\n').replace(/\r/g, '\n')\<close>\<close>

fun normalize_newlines :: "string \<Rightarrow> string" where
  "normalize_newlines [] = []"
| "normalize_newlines (c # cs) =
     (if c = CR then LF # normalize_newlines (if cs \<noteq> [] \<and> hd cs = LF then tl cs else cs)
      else c # normalize_newlines cs)"

text \<open>
  \<^verbatim>\<open>parseCSV\<close> of \<^verbatim>\<open>part_000\<close> (lines 752 to 818): the first line that is not blank is the
  header; blank lines are skipped; a row whose field count differs from the header's is
  skipped with a warning.
\<close>

definition parseCSV2 :: "string \<Rightarrow> entry list" where
  "parseCSV2 csv =
     (if csv = [] then []
      else
        (let lines = split LF (normalize_newlines csv);
             rest = dropWhile (\<lambda>l. trim l = []) lines
         in case rest of
              [] \<Rightarrow> []
            | headerLine # dataLines \<Rightarrow>
                (let headers = map trim (parseRow headerLine)
                 in concat (map (\<lambda>line.
                      if trim line = [] then []
                      else (let values = parseRow line
                            in if length values = length headers
                               then [build_object headers values []] else []))
                      dataLines))))"

text \<open>The input of the specification's property P6.\<close>

definition p6_input :: string where
  "p6_input = ''website,username,password'' @ [LF] @ ''Example.com,'' @
     [dquote] @ ''user,one'' @ [dquote] @ '','' @
     [dquote] @ ''pa'' @ [dquote, dquote] @ ''ss'' @ [dquote]"

definition p6_record :: entry where
  "p6_record = [(''website'', JStr ''Example.com''), (''username'', JStr ''user,one''),
     (''password'', JStr (''pa'' @ [dquote] @ ''ss''))]"


section \<open>JavaScript primitives the program uses\<close>

datatype exn = TypeError | DataError

text \<open>Truthiness, as \<^verbatim>\<open>&&\<close>, \<^verbatim>\<open>||\<close> and \<^verbatim>\<open>!\<close> test it.\<close>

fun truthy :: "jsval \<Rightarrow> bool" where
  "truthy JUndefined = False"
| "truthy JNull = False"
| "truthy (JBool b) = b"
| "truthy (JNum n) = (n \<noteq> 0)"
| "truthy (JStr s) = (s \<noteq> [])"

definition js_or :: "jsval \<Rightarrow> jsval \<Rightarrow> jsval" where
  "js_or a b = (if truthy a then a else b)"

definition digit_char :: "nat \<Rightarrow> char" where
  "digit_char d = char_of (48 + d)"

function show_nat :: "nat \<Rightarrow> string" where
  "show_nat n = (if n < 10 then [digit_char n] else show_nat (n div 10) @ [digit_char (n mod 10)])"
  by pat_completeness auto
termination
  by (relation "measure id") auto

definition show_int :: "int \<Rightarrow> string" where
  "show_int i = (if i < 0 then CHR ''-'' # show_nat (nat (- i)) else show_nat (nat i))"

text \<open>\<^verbatim>\<open>String(v)\<close>, which is also \<^verbatim>\<open>v + ''\<close> and \<^verbatim>\<open>`${v}`\<close>.\<close>

fun toStr :: "jsval \<Rightarrow> string" where
  "toStr JUndefined = ''undefined''"
| "toStr JNull = ''null''"
| "toStr (JBool b) = (if b then ''true'' else ''false'')"
| "toStr (JNum n) = show_int n"
| "toStr (JStr s) = s"

text \<open>
  \<^verbatim>\<open>toLowerCase\<close> on code units below 256: the letters A to Z and the accented capitals
  of Latin-1 move up by 32.
\<close>

definition lower_char :: "char \<Rightarrow> char" where
  "lower_char c =
     (let n = (of_char c :: nat)
      in if (65 \<le> n \<and> n \<le> 90) \<or> (192 \<le> n \<and> n \<le> 222 \<and> n \<noteq> 215) then char_of (n + 32) else c)"

definition toLowerCase :: "string \<Rightarrow> string" where
  "toLowerCase s = map lower_char s"

text \<open>
  The method call \<^verbatim>\<open>v.toLowerCase()\<close> on an arbitrary value: only a string has the
  method; on \<^verbatim>\<open>undefined\<close> and \<^verbatim>\<open>null\<close> the property read raises, on a number or a
  boolean the call of the missing method raises. Both are a \<^verbatim>\<open>TypeError\<close>.
\<close>

fun call_toLowerCase :: "jsval \<Rightarrow> exn + string" where
  "call_toLowerCase (JStr s) = Inr (toLowerCase s)"
| "call_toLowerCase _ = Inl TypeError"

text \<open>\<^verbatim>\<open>s.includes(t)\<close>: \<open>t\<close> occurs in \<open>s\<close> as a contiguous piece.\<close>

fun str_includes :: "string \<Rightarrow> string \<Rightarrow> bool" where
  "str_includes [] t = (t = [])"
| "str_includes (c # cs) t = (take (length t) (c # cs) = t \<or> str_includes cs t)"

section \<open>The object store\<close>

text \<open>
  \<^verbatim>\<open>openDB\<close> creates the object store with \<^verbatim>\<open>{ keyPath: 'id', autoIncrement: true }\<close>.
  The model of that store follows the IndexedDB rules for in-line keys with a key generator:
  the key of a value is its \<^verbatim>\<open>id\<close> property when it has one, and a generated number (written
  into the stored copy) when it has none; a numeric key at or above the generator's current
  number moves the generator past it. Numbers and strings are the valid keys among the
  modelled values; numbers sort before strings. Records are kept in key order, the order
  in which \<^verbatim>\<open>getAll\<close> returns them.
\<close>

record objstore =
  records :: "(jsval \<times> entry) list"
  keygen :: int

definition empty_store :: objstore where
  "empty_store = \<lparr>records = [], keygen = 1\<rparr>"

fun valid_key :: "jsval \<Rightarrow> bool" where
  "valid_key (JNum n) = True"
| "valid_key (JStr s) = True"
| "valid_key _ = False"

fun key_less :: "jsval \<Rightarrow> jsval \<Rightarrow> bool" where
  "key_less (JNum a) (JNum b) = (a < b)"
| "key_less (JNum a) (JStr b) = True"
| "key_less (JStr a) (JStr b) = (a < b)"
| "key_less _ _ = False"

fun store_insert :: "jsval \<Rightarrow> entry \<Rightarrow> (jsval \<times> entry) list \<Rightarrow> (jsval \<times> entry) list" where
  "store_insert k e [] = [(k, e)]"
| "store_insert k e (r # rs) =
     (if fst r = k then (k, e) # rs
      else if key_less k (fst r) then (k, e) # r # rs
      else r # store_insert k e rs)"

definition has_key :: "objstore \<Rightarrow> jsval \<Rightarrow> bool" where
  "has_key s k = (k \<in> fst ` set (records s))"

definition bump_keygen :: "jsval \<Rightarrow> int \<Rightarrow> int" where
  "bump_keygen k g = (case k of JNum n \<Rightarrow> (if g \<le> n then n + 1 else g) | _ \<Rightarrow> g)"

datatype request_error = ConstraintError | UnknownError

text \<open>
  A write request on the store. \<open>store_write overwrite e s\<close> is \<^verbatim>\<open>put(e)\<close> when
  \<open>overwrite\<close> holds and \<^verbatim>\<open>add(e)\<close> otherwise. The caller has already checked that the
  \<^verbatim>\<open>id\<close> of \<open>e\<close> is absent or a valid key (see \<open>key_acceptable\<close>).
\<close>

definition key_acceptable :: "entry \<Rightarrow> bool" where
  "key_acceptable e = (get_prop e ''id'' = JUndefined \<or> valid_key (get_prop e ''id''))"

definition store_write :: "bool \<Rightarrow> entry \<Rightarrow> objstore \<Rightarrow> request_error + objstore" where
  "store_write overwrite e s =
     (case get_prop e ''id'' of
        JUndefined \<Rightarrow>
          Inr \<lparr>records = store_insert (JNum (keygen s)) (set_prop ''id'' (JNum (keygen s)) e) (records s),
               keygen = keygen s + 1\<rparr>
      | k \<Rightarrow>
          if \<not> overwrite \<and> has_key s k then Inl ConstraintError
          else Inr \<lparr>records = store_insert k e (records s), keygen = bump_keygen k (keygen s)\<rparr>)"

definition getAll :: "objstore \<Rightarrow> entry list" where
  "getAll s = map snd (records s)"


section \<open>Application state\<close>

datatype direction = Asc | Desc

text \<open>
  The globals of the script (\<^verbatim>\<open>db\<close>, \<^verbatim>\<open>currentPasswords\<close>, \<^verbatim>\<open>sortColumn\<close>,
  \<^verbatim>\<open>sortDirection\<close>) together with what the program does to its surroundings: the contents
  of the object store (\<open>disk\<close>), the rows of the table body (\<open>rendered\<close>, each row
  standing for the entry it shows), the messages passed to \<^verbatim>\<open>alert\<close> and the files offered
  for download. \<open>sortColumn\<close> is \<open>None\<close> when the variable holds \<^verbatim>\<open>null\<close>.
\<close>

record vault =
  db :: bool
  disk :: objstore
  currentPasswords :: "entry list"
  sortColumn :: "string option"
  sortDirection :: direction
  rendered :: "entry list"
  alerts :: "string list"
  downloads :: "(string \<times> string) list"

text \<open>
  An operation runs to its end or stops at an exception that nothing catches; the state
  changes made before the exception stay.
\<close>

datatype outcome = Returned | Threw exn

definition alert :: "string \<Rightarrow> vault \<Rightarrow> vault" where
  "alert msg st = st\<lparr>alerts := alerts st @ [msg]\<rparr>"

section \<open>Sorting\<close>

text \<open>The property name a value of \<^verbatim>\<open>sortColumn\<close> selects in \<^verbatim>\<open>a[sortColumn]\<close>.\<close>

definition prop_key :: "string option \<Rightarrow> string" where
  "prop_key c = (case c of None \<Rightarrow> ''null'' | Some k \<Rightarrow> k)"

text \<open>
  The text the comparator compares. \<^verbatim>\<open>script.js\<close> (lines 505 and 506):
  \<^verbatim>\<open>a[sortColumn].toLowerCase()\<close>. \<^verbatim>\<open>part_000\<close> (lines 1039 and 1040):
  \<^verbatim>\<open>((a[sortColumn] || '') + '').toLowerCase()\<close>.
\<close>

definition sort_text :: "revision \<Rightarrow> jsval \<Rightarrow> exn + string" where
  "sort_text rv v =
     (case rv of
        ScriptJs \<Rightarrow> call_toLowerCase v
      | Part000 \<Rightarrow> call_toLowerCase (JStr (toStr (js_or v (JStr [])) @ [])))"

text \<open>The comparator passed to \<^verbatim>\<open>currentPasswords.sort\<close>. Strings compare by code units.\<close>

definition compareEntries ::
    "revision \<Rightarrow> string option \<Rightarrow> direction \<Rightarrow> entry \<Rightarrow> entry \<Rightarrow> exn + int" where
  "compareEntries rv col dir a b =
     (case sort_text rv (get_prop a (prop_key col)) of
        Inl x \<Rightarrow> Inl x
      | Inr valA \<Rightarrow>
          (case sort_text rv (get_prop b (prop_key col)) of
             Inl x \<Rightarrow> Inl x
           | Inr valB \<Rightarrow>
               (let comparison = (if valA > valB then 1 else if valA < valB then - 1 else 0)
                in Inr (if dir = Desc then comparison * (- 1) else comparison))))"

text \<open>
  \<^verbatim>\<open>Array.prototype.sort\<close> with a comparator. The language fixes the result for a
  consistent comparator (the sort is stable) and leaves the sequence of comparisons to the
  engine; the model inserts the elements from the right, each before the first element
  it does not come after. An exception of the comparator ends the sort and leaves the array
  as it was. With two or more elements every element takes part in a comparison.
\<close>

fun insert_sorted :: "('a \<Rightarrow> 'a \<Rightarrow> exn + int) \<Rightarrow> 'a \<Rightarrow> 'a list \<Rightarrow> exn + 'a list" where
  "insert_sorted cmp x [] = Inr [x]"
| "insert_sorted cmp x (y # ys) =
     (case cmp x y of
        Inl e \<Rightarrow> Inl e
      | Inr c \<Rightarrow>
          if c \<le> 0 then Inr (x # y # ys)
          else (case insert_sorted cmp x ys of Inl e \<Rightarrow> Inl e | Inr zs \<Rightarrow> Inr (y # zs)))"

fun array_sort :: "('a \<Rightarrow> 'a \<Rightarrow> exn + int) \<Rightarrow> 'a list \<Rightarrow> exn + 'a list" where
  "array_sort cmp [] = Inr []"
| "array_sort cmp (x # xs) =
     (case array_sort cmp xs of Inl e \<Rightarrow> Inl e | Inr ys \<Rightarrow> insert_sorted cmp x ys)"

text \<open>
  \<^verbatim>\<open>renderPasswords\<close>. In \<^verbatim>\<open>script.js\<close> (line 406) the row of an entry reads
  \<^verbatim>\<open>entry.password.length\<close>, which raises when the password is \<^verbatim>\<open>undefined\<close> or
  \<^verbatim>\<open>null\<close>; the rows drawn before stay. \<^verbatim>\<open>part_000\<close> (line 941) reads
  \<^verbatim>\<open>(entry.password || '').length\<close>.
\<close>

definition has_length :: "jsval \<Rightarrow> bool" where
  "has_length v = (v \<noteq> JUndefined \<and> v \<noteq> JNull)"

definition renderPasswords :: "revision \<Rightarrow> entry list \<Rightarrow> vault \<Rightarrow> outcome \<times> vault" where
  "renderPasswords rv passwords st =
     (case rv of
        ScriptJs \<Rightarrow>
          (let drawn = takeWhile (\<lambda>e. has_length (get_prop e ''password'')) passwords
           in (if drawn = passwords then Returned else Threw TypeError, st\<lparr>rendered := drawn\<rparr>))
      | Part000 \<Rightarrow> (Returned, st\<lparr>rendered := passwords\<rparr>))"

text \<open>\<^verbatim>\<open>sortAndRenderPasswords\<close>: sort the cache in place, then draw it.\<close>

definition sortAndRenderPasswords :: "revision \<Rightarrow> vault \<Rightarrow> outcome \<times> vault" where
  "sortAndRenderPasswords rv st =
     (case array_sort (compareEntries rv (sortColumn st) (sortDirection st)) (currentPasswords st) of
        Inl x \<Rightarrow> (Threw x, st)
      | Inr ys \<Rightarrow> renderPasswords rv ys (st\<lparr>currentPasswords := ys\<rparr>))"

text \<open>
  The click listener of the table (\<^verbatim>\<open>script.js\<close> lines 555 to 569, \<^verbatim>\<open>part_000\<close>
  lines 1105 to 1120) for a click on a header cell; \<open>attr\<close> is what
  \<^verbatim>\<open>getAttribute('data-sort')\<close> returns, \<open>None\<close> for \<^verbatim>\<open>null\<close>. \<^verbatim>\<open>part_000\<close> returns
  early when the attribute is missing or empty.
\<close>

definition flip :: "direction \<Rightarrow> direction" where
  "flip d = (if d = Asc then Desc else Asc)"

definition header_click :: "revision \<Rightarrow> string option \<Rightarrow> vault \<Rightarrow> outcome \<times> vault" where
  "header_click rv attr st =
     (if rv = Part000 \<and> (attr = None \<or> attr = Some []) then (Returned, st)
      else sortAndRenderPasswords rv
             (if attr = sortColumn st then st\<lparr>sortDirection := flip (sortDirection st)\<rparr>
              else st\<lparr>sortColumn := attr, sortDirection := Asc\<rparr>))"

section \<open>Filtering\<close>

text \<open>
  The lower-cased field the filter searches. \<^verbatim>\<open>script.js\<close> (lines 479 and 480):
  \<^verbatim>\<open>entry.website.toLowerCase()\<close>. \<^verbatim>\<open>part_000\<close> (lines 1012 and 1013):
  \<^verbatim>\<open>(entry.website || '').toLowerCase()\<close>.
\<close>

definition filter_text :: "revision \<Rightarrow> jsval \<Rightarrow> exn + string" where
  "filter_text rv v =
     (case rv of
        ScriptJs \<Rightarrow> call_toLowerCase v
      | Part000 \<Rightarrow> call_toLowerCase (js_or v (JStr [])))"

definition entry_matches :: "revision \<Rightarrow> string \<Rightarrow> entry \<Rightarrow> exn + bool" where
  "entry_matches rv term e =
     (case filter_text rv (get_prop e ''website'') of
        Inl x \<Rightarrow> Inl x
      | Inr w \<Rightarrow>
          if str_includes w term then Inr True
          else (case filter_text rv (get_prop e ''username'') of
                  Inl x \<Rightarrow> Inl x
                | Inr u \<Rightarrow> Inr (str_includes u term)))"

text \<open>\<^verbatim>\<open>Array.prototype.filter\<close> with a callback that may raise.\<close>

fun array_filter :: "('a \<Rightarrow> exn + bool) \<Rightarrow> 'a list \<Rightarrow> exn + 'a list" where
  "array_filter p [] = Inr []"
| "array_filter p (x # xs) =
     (case p x of
        Inl e \<Rightarrow> Inl e
      | Inr keep \<Rightarrow>
          (case array_filter p xs of
             Inl e \<Rightarrow> Inl e
           | Inr ys \<Rightarrow> Inr (if keep then x # ys else ys)))"

text \<open>\<^verbatim>\<open>filterPasswords\<close> (\<^verbatim>\<open>script.js\<close> lines 470 to 484, \<^verbatim>\<open>part_000\<close> lines 1003 to 1017).\<close>

definition filterPasswords :: "revision \<Rightarrow> string \<Rightarrow> vault \<Rightarrow> outcome \<times> vault" where
  "filterPasswords rv searchTerm st =
     (let term = trim (toLowerCase searchTerm)
      in if term = [] then sortAndRenderPasswords rv st
         else (case array_filter (entry_matches rv term) (currentPasswords st) of
                 Inl x \<Rightarrow> (Threw x, st)
               | Inr filteredList \<Rightarrow> renderPasswords rv filteredList st))"


section \<open>Loading and updating\<close>

text \<open>
  A request on the object store is answered later, with success or with an error that
  depends on the device. The model runs an operation together with the answer to its
  request; the answer is given by a flag (\<open>readOk\<close>, \<open>writeOk\<close>) that says whether
  the device carries the request out. Operations whose answers are still pending while
  another operation starts are outside the model.

  \<^verbatim>\<open>loadPasswords\<close> (\<^verbatim>\<open>script.js\<close> lines 59 to 77, \<^verbatim>\<open>part_000\<close> lines 486 to 504).
\<close>

definition loadPasswords :: "revision \<Rightarrow> bool \<Rightarrow> vault \<Rightarrow> outcome \<times> vault" where
  "loadPasswords rv readOk st =
     (if \<not> db st then (Returned, st)
      else if readOk then sortAndRenderPasswords rv (st\<lparr>currentPasswords := getAll (disk st)\<rparr>)
      else (Returned, st))"

text \<open>\<^verbatim>\<open>findIndex\<close>: the first position that satisfies the test, \<open>None\<close> for \<^verbatim>\<open>-1\<close>.\<close>

fun findIndex :: "('a \<Rightarrow> bool) \<Rightarrow> 'a list \<Rightarrow> nat option" where
  "findIndex P [] = None"
| "findIndex P (x # xs) = (if P x then Some 0 else map_option Suc (findIndex P xs))"

text \<open>
  \<^verbatim>\<open>updateTableRow\<close> (\<^verbatim>\<open>script.js\<close> lines 372 to 386): the first row whose
  \<^verbatim>\<open>data-id\<close> is the text of the entry's id gets the entry's username and a mask of the
  length of its password.
\<close>

definition updateTableRow :: "entry \<Rightarrow> vault \<Rightarrow> outcome \<times> vault" where
  "updateTableRow e st =
     (case findIndex (\<lambda>r. toStr (get_prop r ''id'') = toStr (get_prop e ''id'')) (rendered st) of
        None \<Rightarrow> (Returned, st)
      | Some i \<Rightarrow>
          (let r1 = set_prop ''username'' (get_prop e ''username'') (rendered st ! i)
           in if has_length (get_prop e ''password'')
              then (Returned,
                    st\<lparr>rendered := (rendered st)[i := set_prop ''password'' (get_prop e ''password'') r1]\<rparr>)
              else (Threw TypeError, st\<lparr>rendered := (rendered st)[i := r1]\<rparr>)))"

text \<open>
  \<^verbatim>\<open>updatePassword\<close> (\<^verbatim>\<open>script.js\<close> lines 139 to 159, \<^verbatim>\<open>part_000\<close> lines 570 to 590):
  the cache and the table are updated when the id is found; \<^verbatim>\<open>store.put(entry)\<close> follows in
  either case. \<^verbatim>\<open>put\<close> raises \<^verbatim>\<open>DataError\<close> at once for an id that is no valid key. When
  the device refuses the write, the user is told and the cache is loaded again.
\<close>

definition updatePassword :: "revision \<Rightarrow> bool \<Rightarrow> bool \<Rightarrow> entry \<Rightarrow> vault \<Rightarrow> outcome \<times> vault" where
  "updatePassword rv writeOk readOk e st =
     (if \<not> db st then (Returned, st)
      else
        (case (case findIndex (\<lambda>p. get_prop p ''id'' = get_prop e ''id'') (currentPasswords st) of
                 None \<Rightarrow> (Returned, st)
               | Some i \<Rightarrow> updateTableRow e (st\<lparr>currentPasswords := (currentPasswords st)[i := e]\<rparr>)) of
           (Threw x, st1) \<Rightarrow> (Threw x, st1)
         | (Returned, st1) \<Rightarrow>
             if \<not> key_acceptable e then (Threw DataError, st1)
             else
               (case (if writeOk then store_write True e (disk st1) else Inl UnknownError) of
                  Inr s \<Rightarrow> (Returned, st1\<lparr>disk := s\<rparr>)
                | Inl err \<Rightarrow>
                    loadPasswords rv readOk
                      (alert ''Failed to save changes to disk. Reloading data.'' st1))))"

text \<open>
  The click listener of the save button of the edit dialog (\<^verbatim>\<open>script.js\<close> lines 647 to
  677, \<^verbatim>\<open>part_000\<close> lines 1192 to 1222). \<open>idValue\<close> is the result of \<^verbatim>\<open>parseInt\<close> on
  the hidden id field, \<open>None\<close> for \<^verbatim>\<open>NaN\<close>; the other two are the values of the input
  fields.
\<close>

definition editSave_click ::
    "revision \<Rightarrow> bool \<Rightarrow> bool \<Rightarrow> int option \<Rightarrow> string \<Rightarrow> string \<Rightarrow> vault \<Rightarrow> outcome \<times> vault" where
  "editSave_click rv writeOk readOk idValue usernameValue passwordValue st =
     (case find (\<lambda>p. case idValue of None \<Rightarrow> False | Some n \<Rightarrow> get_prop p ''id'' = JNum n)
             (currentPasswords st) of
        None \<Rightarrow> (Returned, alert ''Error: Entry ID not found for saving.'' st)
      | Some originalEntry \<Rightarrow>
          (let newUsername = trim usernameValue;
               newPassword = passwordValue
           in if JStr newUsername = get_prop originalEntry ''username''
                 \<and> JStr newPassword = get_prop originalEntry ''password''
              then (Returned, alert ''No changes were made.'' st)
              else if newUsername \<noteq> [] \<and> newPassword \<noteq> []
              then updatePassword rv writeOk readOk
                     (set_prop ''password'' (JStr newPassword)
                        (set_prop ''username'' (JStr newUsername) originalEntry)) st
              else (Returned, alert ''Username and Password cannot be empty.'' st)))"

section \<open>Import\<close>

text \<open>
  What the import reads from the chosen file. For the structured format the model takes the
  result of \<^verbatim>\<open>JSON.parse\<close> on the text: a syntax error, a value that is no array, or an
  array. An element of the array is \<^verbatim>\<open>null\<close>, an object, or another value (a number, a
  string, a boolean, an array), which has none of the three properties.
\<close>

datatype item = ItemNull | ItemOther | ItemObject entry

datatype json_result = JsonSyntaxError | JsonNotArray | JsonArray "item list"

datatype import_file = JsonFile json_result | CsvFile string

definition format_name :: "import_file \<Rightarrow> string" where
  "format_name f = (case f of JsonFile _ \<Rightarrow> ''JSON'' | CsvFile _ \<Rightarrow> ''CSV'')"

definition parse_file :: "revision \<Rightarrow> import_file \<Rightarrow> json_result" where
  "parse_file rv f =
     (case f of
        JsonFile r \<Rightarrow> r
      | CsvFile text \<Rightarrow>
          JsonArray (map ItemObject (case rv of ScriptJs \<Rightarrow> parseCSV text | Part000 \<Rightarrow> parseCSV2 text)))"

text \<open>
  The validation callback. \<^verbatim>\<open>script.js\<close> (line 250):
  \<^verbatim>\<open>p => p.website && p.username && p.password\<close>, which raises on \<^verbatim>\<open>null\<close>.
  \<^verbatim>\<open>part_000\<close> (line 715): \<^verbatim>\<open>p => p && p.website && p.username && p.password\<close>.
\<close>

definition is_valid :: "revision \<Rightarrow> item \<Rightarrow> exn + bool" where
  "is_valid rv p =
     (case p of
        ItemNull \<Rightarrow> (case rv of ScriptJs \<Rightarrow> Inl TypeError | Part000 \<Rightarrow> Inr False)
      | ItemOther \<Rightarrow> Inr False
      | ItemObject e \<Rightarrow>
          Inr (truthy (get_prop e ''website'') \<and> truthy (get_prop e ''username'')
               \<and> truthy (get_prop e ''password'')))"

fun item_objects :: "item list \<Rightarrow> entry list" where
  "item_objects [] = []"
| "item_objects (ItemObject e # ps) = e # item_objects ps"
| "item_objects (_ # ps) = item_objects ps"

text \<open>
  The requests of one transaction, carried out in order: \<^verbatim>\<open>add\<close> answers with a
  \<^verbatim>\<open>ConstraintError\<close> when the key is taken, and the transaction is then undone as a whole.
\<close>

fun run_adds :: "entry list \<Rightarrow> objstore \<Rightarrow> request_error + objstore" where
  "run_adds [] s = Inr s"
| "run_adds (e # es) s = (case store_write False e s of Inl err \<Rightarrow> Inl err | Inr s1 \<Rightarrow> run_adds es s1)"

text \<open>
  \<^verbatim>\<open>importPasswords\<close> (\<^verbatim>\<open>script.js\<close> lines 232 to 286) and
  \<^verbatim>\<open>importPasswordsFromEvent\<close> (\<^verbatim>\<open>part_000\<close> lines 700 to 746). Every exception inside the
  \<^verbatim>\<open>try\<close> block ends in the message of the \<^verbatim>\<open>catch\<close> block. \<^verbatim>\<open>store.add\<close> raises
  \<^verbatim>\<open>DataError\<close> at once for a record whose id is no valid key; the requests issued before it
  stay in the transaction, which then has no listeners.
\<close>

definition parse_error_message :: "import_file \<Rightarrow> string" where
  "parse_error_message f =
     ''Error reading or parsing the file. Make sure it is a valid '' @ format_name f @ '' file.''"

definition importPasswords ::
    "revision \<Rightarrow> bool \<Rightarrow> bool \<Rightarrow> import_file option \<Rightarrow> vault \<Rightarrow> outcome \<times> vault" where
  "importPasswords rv writeOk readOk file st =
     (case file of
        None \<Rightarrow> (Returned, st)
      | Some f \<Rightarrow>
          (case parse_file rv f of
             JsonSyntaxError \<Rightarrow> (Returned, alert (parse_error_message f) st)
           | JsonNotArray \<Rightarrow>
               (Returned, alert (''Invalid file format. Please select a valid '' @ format_name f @ '' file.'') st)
           | JsonArray importedPasswords \<Rightarrow>
               (case array_filter (is_valid rv) importedPasswords of
                  Inl x \<Rightarrow> (Returned, alert (parse_error_message f) st)
                | Inr validItems \<Rightarrow>
                    (let validPasswords = item_objects validItems
                     in if validPasswords = []
                        then (Returned, alert ''No valid password entries found in the file.'' st)
                        else if \<not> db st then (Returned, alert (parse_error_message f) st)
                        else
                          (let issued = takeWhile key_acceptable validPasswords;
                               committed = (if writeOk then run_adds issued (disk st) else Inl UnknownError)
                           in if issued \<noteq> validPasswords
                              then (Returned,
                                    alert (parse_error_message f)
                                      (case committed of Inl err \<Rightarrow> st | Inr s \<Rightarrow> st\<lparr>disk := s\<rparr>))
                              else (case committed of
                                      Inl err \<Rightarrow>
                                        (Returned, alert ''An error occurred during the import process.'' st)
                                    | Inr s \<Rightarrow>
                                        loadPasswords rv readOk
                                          (alert (show_nat (length validPasswords)
                                                    @ '' passwords imported successfully.'')
                                             (st\<lparr>disk := s\<rparr>))))))))"


section \<open>Export\<close>

definition hex_char :: "nat \<Rightarrow> char" where
  "hex_char d = (if d < 10 then char_of (48 + d) else char_of (87 + d))"

text \<open>The escape of one code unit inside a string literal of \<^verbatim>\<open>JSON.stringify\<close>.\<close>

definition json_escape_char :: "char \<Rightarrow> string" where
  "json_escape_char c =
     (let n = (of_char c :: nat)
      in if n = 8 then [backslash, CHR ''b'']
         else if n = 9 then [backslash, CHR ''t'']
         else if n = 10 then [backslash, CHR ''n'']
         else if n = 12 then [backslash, CHR ''f'']
         else if n = 13 then [backslash, CHR ''r'']
         else if c = dquote then [backslash, dquote]
         else if n = 92 then [backslash, backslash]
         else if n < 32 then [backslash] @ ''u00'' @ [hex_char (n div 16), hex_char (n mod 16)]
         else [c])"

definition json_string :: "string \<Rightarrow> string" where
  "json_string s = [dquote] @ concat (map json_escape_char s) @ [dquote]"

text \<open>\<^verbatim>\<open>JSON.stringify(v)\<close> for a scalar; \<open>None\<close> stands for the result \<^verbatim>\<open>undefined\<close>.\<close>

fun json_scalar :: "jsval \<Rightarrow> string option" where
  "json_scalar JUndefined = None"
| "json_scalar JNull = Some ''null''"
| "json_scalar (JBool b) = Some (if b then ''true'' else ''false'')"
| "json_scalar (JNum n) = Some (show_int n)"
| "json_scalar (JStr s) = Some (json_string s)"

text \<open>
  \<^verbatim>\<open>JSON.stringify(currentPasswords, null, 2)\<close>: an array of objects, indented by two
  spaces per level; a property whose value is \<^verbatim>\<open>undefined\<close> is left out.
\<close>

fun json_members :: "entry \<Rightarrow> string list" where
  "json_members [] = []"
| "json_members ((k, v) # ps) =
     (case json_scalar v of
        None \<Rightarrow> json_members ps
      | Some t \<Rightarrow> (''    '' @ json_string k @ '': '' @ t) # json_members ps)"

definition json_object :: "entry \<Rightarrow> string" where
  "json_object e =
     (if json_members e = [] then ''{}''
      else ''{'' @ [LF] @ join ('','' @ [LF]) (json_members e) @ [LF] @ ''  }'')"

definition json_array :: "entry list \<Rightarrow> string" where
  "json_array es =
     (if es = [] then ''[]''
      else ''['' @ [LF] @ join ('','' @ [LF]) (map (\<lambda>e. ''  '' @ json_object e) es) @ [LF] @ '']'')"

definition download :: "string \<Rightarrow> string \<Rightarrow> vault \<Rightarrow> vault" where
  "download name content st = st\<lparr>downloads := downloads st @ [(name, content)]\<rparr>"

text \<open>
  \<^verbatim>\<open>exportPasswords\<close> (\<^verbatim>\<open>script.js\<close> lines 211 to 227, \<^verbatim>\<open>part_000\<close> lines 642 to 662).
  \<open>today\<close> is the date part of \<^verbatim>\<open>new Date().toISOString()\<close>.
\<close>

definition exportPasswords :: "string \<Rightarrow> vault \<Rightarrow> outcome \<times> vault" where
  "exportPasswords today st =
     (if length (currentPasswords st) = 0 then (Returned, alert ''No passwords to export.'' st)
      else (Returned,
            download (''passwords-backup-'' @ today @ ''.json'') (json_array (currentPasswords st)) st))"

text \<open>\<^verbatim>\<open>s.replace(/"/g, '""')\<close>\<close>

definition double_quotes :: "string \<Rightarrow> string" where
  "double_quotes s = concat (map (\<lambda>c. if c = dquote then [dquote, dquote] else [c]) s)"

text \<open>\<^verbatim>\<open>csvEscape\<close> (\<^verbatim>\<open>part_000\<close> lines 823 to 830).\<close>

definition csvEscape :: "jsval \<Rightarrow> string" where
  "csvEscape v =
     (if v = JNull \<or> v = JUndefined then []
      else
        (let s = toStr v
         in if str_includes s [dquote] \<or> str_includes s '','' \<or> str_includes s [LF]
            then [dquote] @ double_quotes s @ [dquote]
            else s))"

text \<open>
  The text of one cell. \<^verbatim>\<open>script.js\<close> (line 322) takes \<^verbatim>\<open>JSON.stringify(row[fieldName])\<close>,
  and \<^verbatim>\<open>join\<close> writes nothing for \<^verbatim>\<open>undefined\<close>. \<^verbatim>\<open>part_000\<close> (line 845) takes
  \<^verbatim>\<open>csvEscape(row[fieldName])\<close>.
\<close>

definition csv_cell :: "revision \<Rightarrow> jsval \<Rightarrow> string" where
  "csv_cell rv v =
     (case rv of
        ScriptJs \<Rightarrow> (case json_scalar v of None \<Rightarrow> [] | Some t \<Rightarrow> t)
      | Part000 \<Rightarrow> csvEscape v)"

definition csv_headers :: "string list" where
  "csv_headers = [''website'', ''username'', ''password'']"

text \<open>\<^verbatim>\<open>exportToCSV\<close> (\<^verbatim>\<open>script.js\<close> lines 313 to 334, \<^verbatim>\<open>part_000\<close> lines 835 to 866).\<close>

definition exportToCSV :: "revision \<Rightarrow> string \<Rightarrow> vault \<Rightarrow> outcome \<times> vault" where
  "exportToCSV rv today st =
     (if length (currentPasswords st) = 0 then (Returned, alert ''No passwords to export.'' st)
      else
        (let csvRows = join '','' csv_headers
               # map (\<lambda>row. join '','' (map (\<lambda>fieldName. csv_cell rv (get_prop row fieldName)) csv_headers))
                   (currentPasswords st);
             csv = join [CR, LF] csvRows
         in (Returned, download (''passwords-backup-'' @ today @ ''.csv'') csv st)))"


section \<open>The sort without exceptions\<close>

text \<open>
  The same insertion as \<open>insert_sorted\<close> and \<open>array_sort\<close> for an order that cannot raise;
  the proofs about sorting go through it.
\<close>

fun ordered_insert :: "('a \<Rightarrow> 'a \<Rightarrow> bool) \<Rightarrow> 'a \<Rightarrow> 'a list \<Rightarrow> 'a list" where
  "ordered_insert le x [] = [x]"
| "ordered_insert le x (y # ys) = (if le x y then x # y # ys else y # ordered_insert le x ys)"

fun insertion_sort :: "('a \<Rightarrow> 'a \<Rightarrow> bool) \<Rightarrow> 'a list \<Rightarrow> 'a list" where
  "insertion_sort le [] = []"
| "insertion_sort le (x # xs) = ordered_insert le x (insertion_sort le xs)"

text \<open>The comparator's answer read as "a does not come after b".\<close>

definition not_after :: "('a \<Rightarrow> 'a \<Rightarrow> exn + int) \<Rightarrow> 'a \<Rightarrow> 'a \<Rightarrow> bool" where
  "not_after cmp a b = (case cmp a b of Inl e \<Rightarrow> False | Inr c \<Rightarrow> c \<le> 0)"

text \<open>
  The text the comparator reads from an entry (\<open>valA\<close> and \<open>valB\<close> of the source), and
  the same as a plain string where it can be read.
\<close>

definition entry_key :: "revision \<Rightarrow> string option \<Rightarrow> entry \<Rightarrow> exn + string" where
  "entry_key rv col e = sort_text rv (get_prop e (prop_key col))"

definition key_text :: "revision \<Rightarrow> string option \<Rightarrow> entry \<Rightarrow> string" where
  "key_text rv col e = (case entry_key rv col e of Inl x \<Rightarrow> [] | Inr s \<Rightarrow> s)"

definition comes_first :: "direction \<Rightarrow> string \<Rightarrow> string \<Rightarrow> bool" where
  "comes_first dir ka kb = (if dir = Desc then kb \<le> ka else ka \<le> kb)"

section \<open>The store's invariant\<close>


section \<open>The delimited-text export in the specification's words\<close>

text \<open>
  The specification: a header row \<^verbatim>\<open>website,username,password\<close>, then one row per entry
  with exactly those three fields, rows joined by CRLF; a field that contains a quote, a
  comma or a newline is wrapped in quotes with its quotes doubled, any other field is
  written as it is. \<open>cell_text\<close> is the text of a field's value: nothing for a missing
  value, the string conversion otherwise.
\<close>

definition needs_quotes :: "string \<Rightarrow> bool" where
  "needs_quotes s = (dquote \<in> set s \<or> CHR '','' \<in> set s \<or> LF \<in> set s)"

fun double_each_quote :: "string \<Rightarrow> string" where
  "double_each_quote [] = []"
| "double_each_quote (c # cs) = (if c = dquote then dquote # dquote # double_each_quote cs else c # double_each_quote cs)"

definition spec_field :: "string \<Rightarrow> string" where
  "spec_field s = (if needs_quotes s then [dquote] @ double_each_quote s @ [dquote] else s)"

definition cell_text :: "jsval \<Rightarrow> string" where
  "cell_text v = (if v = JNull \<or> v = JUndefined then [] else toStr v)"

definition spec_row :: "entry \<Rightarrow> string" where
  "spec_row e = spec_field (cell_text (get_prop e ''website'')) @ '','' @
                spec_field (cell_text (get_prop e ''username'')) @ '','' @
                spec_field (cell_text (get_prop e ''password''))"

definition spec_csv :: "entry list \<Rightarrow> string" where
  "spec_csv es = ''website,username,password'' @ concat (map (\<lambda>e. [CR, LF] @ spec_row e) es)"

section \<open>Example data\<close>



text \<open>An entry as the program stores it, without the creation date.\<close>

definition mk_entry :: "int \<Rightarrow> string \<Rightarrow> string \<Rightarrow> string \<Rightarrow> entry" where
  "mk_entry i w u p = [(''id'', JNum i), (''website'', JStr w), (''username'', JStr u), (''password'', JStr p)]"

text \<open>
  The store after the given entries have been written to an empty store one after the
  other, and the state in which these entries are stored, cached and drawn, the sort column
  is the given one and the direction is ascending.
\<close>

definition stored :: "entry list \<Rightarrow> objstore" where
  "stored es = fold (\<lambda>e s. case store_write True e s of Inl err \<Rightarrow> s | Inr s1 \<Rightarrow> s1) es empty_store"

definition vault_of :: "entry list \<Rightarrow> string \<Rightarrow> vault" where
  "vault_of es col = \<lparr>db = True, disk = stored es,
     currentPasswords = es, sortColumn = Some col, sortDirection = Asc,
     rendered = es, alerts = [], downloads = []\<rparr>"

text \<open>The state right after the database has been opened for the first time.\<close>

definition fresh_vault :: vault where
  "fresh_vault = vault_of [] ''website''"




text \<open>An entry whose username holds a comma and whose password holds a quote.\<close>

definition quoted_entry :: entry where
  "quoted_entry = mk_entry 1 ''a.com'' ''user,one'' (''pa'' @ [dquote] @ ''ss'')"

text \<open>Two entries whose websites differ only in case.\<close>

definition tie1 :: entry where
  "tie1 = mk_entry 1 ''a.com'' ''bob'' ''p1''"

definition tie2 :: entry where
  "tie2 = mk_entry 2 ''A.com'' ''carl'' ''p2''"

definition site_b :: entry where
  "site_b = mk_entry 1 ''b.com'' ''u1'' ''p1''"

definition site_a :: entry where
  "site_a = mk_entry 2 ''a.com'' ''u2'' ''p2''"

definition site_c :: entry where
  "site_c = mk_entry 3 ''C.com'' ''u3'' ''p3''"

text \<open>An entry whose website is a number, as an imported structured file can contain it.\<close>

definition numeric_site :: entry where
  "numeric_site = [(''id'', JNum 4), (''website'', JNum 5), (''username'', JStr ''u4''), (''password'', JStr ''p4'')]"

definition user_bob :: entry where
  "user_bob = mk_entry 1 ''a.com'' ''bob'' ''p1''"

definition user_carl :: entry where
  "user_carl = mk_entry 2 ''b.com'' ''carl'' ''p2''"

definition user_zed :: entry where
  "user_zed = mk_entry 1 ''a.com'' ''zed'' ''p1''"

text \<open>
  The files that the two revisions export for the cache \<open>[site_a, quoted_entry]\<close>.
\<close>

definition script_export_text :: string where
  "script_export_text = ''website,username,password'' @ [CR, LF] @
     [dquote] @ ''a.com'' @ [dquote] @ '','' @ [dquote] @ ''u2'' @ [dquote] @ '','' @ [dquote] @ ''p2'' @ [dquote]
     @ [CR, LF] @
     [dquote] @ ''a.com'' @ [dquote] @ '','' @ [dquote] @ ''user,one'' @ [dquote] @ '','' @
       [dquote] @ ''pa'' @ [backslash, dquote] @ ''ss'' @ [dquote]"

definition part000_export_text :: string where
  "part000_export_text = ''website,username,password'' @ [CR, LF] @ ''a.com,u2,p2'' @ [CR, LF] @
     ''a.com,'' @ [dquote] @ ''user,one'' @ [dquote] @ '','' @ [dquote] @ ''pa'' @ [dquote, dquote] @ ''ss'' @ [dquote]"

section \<open>Properties of the delimited-text parsers\<close>

text \<open>\<^verbatim>\<open>lines[0]\<close> exists: a split has at least one piece.\<close>

lemma split_not_Nil: "split sep s \<noteq> []"
  by (induction s) (auto split: list.splits)








text \<open>
  Claim C1. The specification's property P6 says that parsing \<open>p6_input\<close> yields exactly
  the record \<open>p6_record\<close>. The parser of \<^verbatim>\<open>script.js\<close> splits the data row at each of
  its three commas, finds four pieces under three headers and drops the row: it returns no
  record at all.
\<close>

theorem parseCSV_p6_drops_row: "parseCSV p6_input = [] \<and> parseCSV p6_input \<noteq> [p6_record]"
  by code_simp

text \<open>The parser of \<^verbatim>\<open>part_000\<close> returns the record of P6.\<close>

lemma parseCSV2_p6: "parseCSV2 p6_input = [p6_record]"
  by code_simp




section \<open>Properties of the sort\<close>

lemma set_ordered_insert: "set (ordered_insert le x ys) = insert x (set ys)"
  by (induction ys) auto

lemma set_insertion_sort: "set (insertion_sort le xs) = set xs"
  by (induction xs) (auto simp: set_ordered_insert)

lemma length_ordered_insert: "length (ordered_insert le x ys) = Suc (length ys)"
  by (induction ys) auto

lemma insert_sorted_pure:
  "\<forall>y \<in> set ys. \<exists>c. cmp x y = Inr c \<Longrightarrow>
     insert_sorted cmp x ys = Inr (ordered_insert (not_after cmp) x ys)"
  by (induction ys) (auto simp: not_after_def)

lemma array_sort_pure:
  "\<forall>a \<in> set xs. \<forall>b \<in> set xs. \<exists>c. cmp a b = Inr c \<Longrightarrow>
     array_sort cmp xs = Inr (insertion_sort (not_after cmp) xs)"
proof (induction xs)
  case Nil
  then show ?case by simp
next
  case (Cons x xs)
  then have "array_sort cmp xs = Inr (insertion_sort (not_after cmp) xs)" by simp
  moreover have "\<forall>y \<in> set (insertion_sort (not_after cmp) xs). \<exists>c. cmp x y = Inr c"
    using Cons.prems by (simp add: set_insertion_sort)
  ultimately show ?case
    by (simp add: insert_sorted_pure)
qed

lemma ordered_insert_cong:
  "\<forall>y \<in> set ys. le x y = le' x y \<Longrightarrow> ordered_insert le x ys = ordered_insert le' x ys"
  by (induction ys) auto

lemma insertion_sort_cong:
  "\<forall>a \<in> set xs. \<forall>b \<in> set xs. le a b = le' a b \<Longrightarrow> insertion_sort le xs = insertion_sort le' xs"
proof (induction xs)
  case Nil
  then show ?case by simp
next
  case (Cons x xs)
  then have ih: "insertion_sort le xs = insertion_sort le' xs" by simp
  have "\<forall>y \<in> set (insertion_sort le' xs). le x y = le' x y"
    using Cons.prems by (simp add: set_insertion_sort)
  then show ?case
    by (simp add: ih ordered_insert_cong)
qed

lemma sorted_ordered_insert:
  assumes total: "\<And>a b. le a b \<or> le b a" and trans: "\<And>a b c. le a b \<Longrightarrow> le b c \<Longrightarrow> le a c"
  shows "sorted_wrt le ys \<Longrightarrow> sorted_wrt le (ordered_insert le x ys)"
proof (induction ys)
  case Nil
  then show ?case by simp
next
  case (Cons y ys)
  show ?case
  proof (cases "le x y")
    case True
    then have "\<forall>z \<in> set ys. le x z" using Cons.prems trans by auto
    with True Cons.prems show ?thesis by simp
  next
    case False
    then have "le y x" using total by blast
    with False Cons show ?thesis by (auto simp: set_ordered_insert)
  qed
qed

lemma sorted_insertion_sort:
  assumes total: "\<And>a b. le a b \<or> le b a" and trans: "\<And>a b c. le a b \<Longrightarrow> le b c \<Longrightarrow> le a c"
  shows "sorted_wrt le (insertion_sort le xs)"
  by (induction xs) (simp_all add: sorted_ordered_insert [OF total trans])

lemma ordered_insert_sorted_id: "sorted_wrt le (x # ys) \<Longrightarrow> ordered_insert le x ys = x # ys"
  by (cases ys) auto

lemma insertion_sort_sorted_id: "sorted_wrt le xs \<Longrightarrow> insertion_sort le xs = xs"
  by (induction xs) (auto simp: ordered_insert_sorted_id)

lemma filter_ordered_insert:
  assumes same: "\<And>a b. key a = key b \<Longrightarrow> le a b"
  shows "filter (\<lambda>y. key y = k) (ordered_insert le x ys) = filter (\<lambda>y. key y = k) (x # ys)"
proof (induction ys)
  case Nil
  then show ?case by simp
next
  case (Cons y ys)
  show ?case
  proof (cases "le x y")
    case True
    then show ?thesis by simp
  next
    case False
    then have "key x \<noteq> key y" using same by blast
    with False Cons show ?thesis by auto
  qed
qed

lemma insertion_sort_stable:
  assumes same: "\<And>a b. key a = key b \<Longrightarrow> le a b"
  shows "filter (\<lambda>y. key y = k) (insertion_sort le xs) = filter (\<lambda>y. key y = k) xs"
proof (induction xs)
  case Nil
  then show ?case by simp
next
  case (Cons x xs)
  have "filter (\<lambda>y. key y = k) (insertion_sort le (x # xs))
      = filter (\<lambda>y. key y = k) (x # insertion_sort le xs)"
    by (simp add: filter_ordered_insert [of key le, OF same])
  then show ?case using Cons by simp
qed

lemma distinct_map_ordered_insert:
  "distinct (map f (ordered_insert le x ys)) = distinct (map f (x # ys))"
  by (induction ys) (auto simp: set_ordered_insert)

lemma distinct_map_insertion_sort:
  "distinct (map f (insertion_sort le xs)) = distinct (map f xs)"
  by (induction xs) (auto simp: distinct_map_ordered_insert set_insertion_sort)

lemma comes_first_total: "comes_first dir a b \<or> comes_first dir b a"
  by (auto simp: comes_first_def)

lemma comes_first_trans: "comes_first dir a b \<Longrightarrow> comes_first dir b c \<Longrightarrow> comes_first dir a c"
  by (auto simp: comes_first_def split: if_splits)

lemma comes_first_flip: "comes_first (flip dir) a b = comes_first dir b a"
  by (cases dir) (auto simp: comes_first_def flip_def)


lemma sorted_wrt_unique:
  assumes antisym: "\<And>a b. a \<in> set xs \<Longrightarrow> b \<in> set xs \<Longrightarrow> le a b \<Longrightarrow> le b a \<Longrightarrow> a = b"
    and "sorted_wrt le xs" and "sorted_wrt le ys"
    and "distinct xs" and "distinct ys" and "set xs = set ys"
  shows "xs = ys"
  using assms
proof (induction xs arbitrary: ys)
  case Nil
  then show ?case by simp
next
  case (Cons x xs)
  then obtain y ys' where ys: "ys = y # ys'" by (cases ys) auto
  have xy: "x = y"
  proof (rule ccontr)
    assume ne: "x \<noteq> y"
    have "x \<in> set ys'" using Cons.prems(6) ne ys by auto
    then have 1: "le y x" using Cons.prems(3) ys by simp
    have "y \<in> set xs" using Cons.prems(6) ne ys by auto
    then have 2: "le x y" using Cons.prems(2) by simp
    have "y \<in> set (x # xs)" using Cons.prems(6) ys by simp
    then show False using Cons.prems(1) [of x y] 1 2 ne by simp
  qed
  have sets: "set xs = set ys'"
    using Cons.prems(4,5,6) ys xy by auto
  have "xs = ys'"
  proof (rule Cons.IH)
    show "\<And>a b. a \<in> set xs \<Longrightarrow> b \<in> set xs \<Longrightarrow> le a b \<Longrightarrow> le b a \<Longrightarrow> a = b"
      using Cons.prems(1) by simp
    show "sorted_wrt le xs" using Cons.prems(2) by simp
    show "sorted_wrt le ys'" using Cons.prems(3) ys by simp
    show "distinct xs" using Cons.prems(4) by simp
    show "distinct ys'" using Cons.prems(5) ys by simp
    show "set xs = set ys'" by (rule sets)
  qed
  with xy ys show ?case by simp
qed

lemma comes_first_antisym: "comes_first dir a b \<Longrightarrow> comes_first dir b a \<Longrightarrow> a = b"
  by (auto simp: comes_first_def split: if_splits)

lemma insertion_sort_reverse:
  fixes key :: "'a \<Rightarrow> string"
  assumes d: "distinct (map key xs)"
  shows "insertion_sort (\<lambda>a b. comes_first (flip dir) (key a) (key b))
           (insertion_sort (\<lambda>a b. comes_first dir (key a) (key b)) xs)
         = rev (insertion_sort (\<lambda>a b. comes_first dir (key a) (key b)) xs)"
proof -
  let ?le = "\<lambda>a b. comes_first dir (key a) (key b)"
  let ?ge = "\<lambda>a b. comes_first (flip dir) (key a) (key b)"
  let ?ys = "insertion_sort ?le xs"
  let ?zs = "insertion_sort ?ge ?ys"
  have s1: "sorted_wrt ?le ?ys"
    by (rule sorted_insertion_sort) (use comes_first_total in blast, use comes_first_trans in blast)
  have s2: "sorted_wrt ?ge ?zs"
    by (rule sorted_insertion_sort) (use comes_first_total in blast, use comes_first_trans in blast)
  have ge: "?ge = (\<lambda>a b. ?le b a)" by (simp add: comes_first_flip)
  have s3: "sorted_wrt ?ge (rev ?ys)"
    unfolding ge using s1 by (simp add: sorted_wrt_rev)
  have dk: "distinct (map key ?zs)" using d by (simp add: distinct_map_insertion_sort)
  then have inj: "inj_on key (set ?zs)" and dz: "distinct ?zs" by (simp_all add: distinct_map)
  have "distinct (map key ?ys)" using d by (simp add: distinct_map_insertion_sort)
  then have "distinct ?ys" using distinct_map [of key ?ys] by blast
  then have dy: "distinct (rev ?ys)" by simp
  have sets: "set ?zs = set (rev ?ys)" by (simp add: set_insertion_sort)
  show ?thesis
  proof (rule sorted_wrt_unique [where le = ?ge])
    show "\<And>a b. a \<in> set ?zs \<Longrightarrow> b \<in> set ?zs \<Longrightarrow> ?ge a b \<Longrightarrow> ?ge b a \<Longrightarrow> a = b"
      using inj comes_first_antisym by (metis inj_onD)
  qed (rule s2 s3 dz dy sets)+
qed


text \<open>
  Where the comparator can read its text: in \<^verbatim>\<open>script.js\<close> exactly where the field is a
  string, in \<^verbatim>\<open>part_000\<close> everywhere (\<open>entry_key_part000\<close> below).
\<close>

lemma entry_key_script:
  "(entry_key ScriptJs col e = Inr s) = (\<exists>t. get_prop e (prop_key col) = JStr t \<and> s = toLowerCase t)"
  by (cases "get_prop e (prop_key col)") (auto simp: entry_key_def sort_text_def)

lemma compareEntries_keys:
  assumes "entry_key rv col a = Inr ka" and "entry_key rv col b = Inr kb"
  shows "compareEntries rv col dir a b
           = Inr (let comparison = (if ka > kb then 1 else if ka < kb then - 1 else 0)
                  in if dir = Desc then comparison * (- 1) else comparison)"
  using assms by (simp add: compareEntries_def entry_key_def Let_def)

lemma not_after_compareEntries:
  assumes "entry_key rv col a = Inr ka" and "entry_key rv col b = Inr kb"
  shows "not_after (compareEntries rv col dir) a b = comes_first dir ka kb"
  by (cases dir) (auto simp: not_after_def compareEntries_keys [OF assms] comes_first_def Let_def)

lemma key_text_eq: "entry_key rv col e = Inr s \<Longrightarrow> key_text rv col e = s"
  by (simp add: key_text_def)

lemma array_sort_entries:
  assumes readable: "\<forall>e \<in> set xs. \<exists>s. entry_key rv col e = Inr s"
  shows "array_sort (compareEntries rv col dir) xs
           = Inr (insertion_sort (\<lambda>a b. comes_first dir (key_text rv col a) (key_text rv col b)) xs)"
proof -
  have total: "\<forall>a \<in> set xs. \<forall>b \<in> set xs. \<exists>c. compareEntries rv col dir a b = Inr c"
    using readable compareEntries_keys by blast
  have same: "\<forall>a \<in> set xs. \<forall>b \<in> set xs.
      not_after (compareEntries rv col dir) a b = comes_first dir (key_text rv col a) (key_text rv col b)"
    using readable not_after_compareEntries key_text_eq by metis
  show ?thesis
    using array_sort_pure [OF total] insertion_sort_cong [OF same] by simp
qed

text \<open>
  Claim C5, amended. For a list whose entries all give the comparator a text in the sort
  column: the sort succeeds; sorting the result again with the same column and direction
  returns it unchanged; the entries of each key stand in the result in their input order;
  and when no two entries have the same key, sorting the result in the other direction
  returns its reverse.
\<close>

theorem sort_twice_stable_reverse:
  assumes readable: "\<forall>e \<in> set xs. \<exists>s. entry_key rv col e = Inr s"
  shows "\<exists>ys. array_sort (compareEntries rv col dir) xs = Inr ys
           \<and> array_sort (compareEntries rv col dir) ys = Inr ys
           \<and> (\<forall>k. filter (\<lambda>e. entry_key rv col e = Inr k) ys = filter (\<lambda>e. entry_key rv col e = Inr k) xs)
           \<and> (distinct (map (entry_key rv col) xs)
                \<longrightarrow> array_sort (compareEntries rv col (flip dir)) ys = Inr (rev ys))"
proof -
  let ?key = "key_text rv col"
  let ?le = "\<lambda>d a b. comes_first d (?key a) (?key b)"
  let ?ys = "insertion_sort (?le dir) xs"
  have readable': "\<forall>e \<in> set ?ys. \<exists>s. entry_key rv col e = Inr s"
    using readable by (simp add: set_insertion_sort)
  have first: "array_sort (compareEntries rv col dir) xs = Inr ?ys"
    by (rule array_sort_entries [OF readable])
  have "sorted_wrt (?le dir) ?ys"
    by (rule sorted_insertion_sort) (use comes_first_total in blast, use comes_first_trans in blast)
  then have "insertion_sort (?le dir) ?ys = ?ys"
    by (rule insertion_sort_sorted_id)
  then have second: "array_sort (compareEntries rv col dir) ?ys = Inr ?ys"
    using array_sort_entries [OF readable', of dir] by simp
  have stable_text: "\<And>k. filter (\<lambda>e. ?key e = k) ?ys = filter (\<lambda>e. ?key e = k) xs"
    by (rule insertion_sort_stable) (simp add: comes_first_def)
  have stable: "filter (\<lambda>e. entry_key rv col e = Inr k) ?ys = filter (\<lambda>e. entry_key rv col e = Inr k) xs" for k
  proof -
    have "filter (\<lambda>e. entry_key rv col e = Inr k) ?ys = filter (\<lambda>e. ?key e = k) ?ys"
      using readable' by (intro filter_cong) (auto simp: key_text_def)
    moreover have "filter (\<lambda>e. entry_key rv col e = Inr k) xs = filter (\<lambda>e. ?key e = k) xs"
      using readable by (intro filter_cong) (auto simp: key_text_def)
    ultimately show ?thesis using stable_text by simp
  qed
  have toggled: "array_sort (compareEntries rv col (flip dir)) ?ys = Inr (rev ?ys)"
    if d: "distinct (map (entry_key rv col) xs)"
  proof -
    from d have dx: "distinct xs" and inj: "inj_on (entry_key rv col) (set xs)"
      by (simp_all add: distinct_map)
    have "inj_on ?key (set xs)"
    proof (rule inj_onI)
      fix a b
      assume a: "a \<in> set xs" and b: "b \<in> set xs" and eq: "?key a = ?key b"
      from readable a b obtain sa sb where "entry_key rv col a = Inr sa" "entry_key rv col b = Inr sb"
        by blast
      then have "entry_key rv col a = entry_key rv col b"
        using eq by (simp add: key_text_def)
      then show "a = b" using inj a b by (simp add: inj_on_def)
    qed
    with dx have "distinct (map ?key xs)" by (simp add: distinct_map)
    then have "insertion_sort (?le (flip dir)) ?ys = rev ?ys"
      by (rule insertion_sort_reverse)
    then show ?thesis
      using array_sort_entries [OF readable', of "flip dir"] by simp
  qed
  show ?thesis
    using first second stable toggled by blast
qed


text \<open>
  Claim C5 as stated fails where two entries have the same key: \<open>tie1\<close> and \<open>tie2\<close>
  are in sorted order, and a click on the header of the same column, which turns the
  direction to descending, leaves them in that order instead of reversing them.
\<close>

theorem toggle_keeps_ties_counterexample:
  "array_sort (compareEntries ScriptJs (Some ''website'') Asc) [tie1, tie2] = Inr [tie1, tie2]
   \<and> currentPasswords (snd (header_click ScriptJs (Some ''website'') (vault_of [tie1, tie2] ''website'')))
       = [tie1, tie2]
   \<and> sortDirection (snd (header_click ScriptJs (Some ''website'') (vault_of [tie1, tie2] ''website''))) = Desc
   \<and> [tie1, tie2] \<noteq> rev [tie1, tie2]"
  by code_simp

text \<open>Three entries with different websites: sorted, sorted again, and reversed by the other direction.\<close>

theorem sort_twice_stable_reverse_witness:
  "array_sort (compareEntries ScriptJs (Some ''website'') Asc) [site_b, site_a, site_c] = Inr [site_a, site_b, site_c]
   \<and> array_sort (compareEntries ScriptJs (Some ''website'') Asc) [site_a, site_b, site_c] = Inr [site_a, site_b, site_c]
   \<and> array_sort (compareEntries ScriptJs (Some ''website'') Desc) [site_a, site_b, site_c] = Inr [site_c, site_b, site_a]"
proof -
  let ?xs = "[site_b, site_a, site_c]"
  have h: "\<forall>e \<in> set ?xs. \<exists>s. entry_key ScriptJs (Some ''website'') e = Inr s"
    by (simp add: entry_key_def sort_text_def get_prop_def prop_key_def site_a_def site_b_def site_c_def mk_entry_def)
  have d: "distinct (map (entry_key ScriptJs (Some ''website'')) ?xs)" by code_simp
  have s: "array_sort (compareEntries ScriptJs (Some ''website'') Asc) ?xs = Inr [site_a, site_b, site_c]"
    by code_simp
  have f: "flip Asc = Desc" by (simp add: flip_def)
  from sort_twice_stable_reverse [OF h, of Asc] s d f show ?thesis by auto
qed





text \<open>
  The comparator of \<^verbatim>\<open>script.js\<close> raises on a field that is a number and on a missing
  field, and the sort of a cache that holds such an entry beside another one raises with it.
\<close>

lemma comparator_script_raises:
  "compareEntries ScriptJs (Some ''website'') Asc numeric_site site_a = Inl TypeError
   \<and> compareEntries ScriptJs (Some ''website'') Asc site_a [(''username'', JStr ''u'')] = Inl TypeError
   \<and> sortAndRenderPasswords ScriptJs (vault_of [site_a, numeric_site] ''website'')
       = (Threw TypeError, vault_of [site_a, numeric_site] ''website'')"
  by code_simp

section \<open>Properties of the filter\<close>

lemma render_cache: "currentPasswords (snd (renderPasswords rv ps st)) = currentPasswords st"
  by (cases rv) (simp_all add: renderPasswords_def Let_def)

lemma render_returned:
  "fst (renderPasswords rv ps st) = Returned \<Longrightarrow> renderPasswords rv ps st = (Returned, st\<lparr>rendered := ps\<rparr>)"
  by (cases rv) (auto simp: renderPasswords_def Let_def split: if_splits)

lemma render_strings:
  "\<forall>e \<in> set ps. has_length (get_prop e ''password'') \<Longrightarrow>
     renderPasswords rv ps st = (Returned, st\<lparr>rendered := ps\<rparr>)"
  by (cases rv) (simp_all add: renderPasswords_def Let_def)

lemma array_filter_subseq: "array_filter p xs = Inr ys \<Longrightarrow> subseq ys xs"
proof (induction xs arbitrary: ys)
  case Nil
  then show ?case by simp
next
  case (Cons x xs)
  then show ?case
    by (auto split: sum.splits if_splits)
qed

lemma array_filter_set: "array_filter p xs = Inr ys \<Longrightarrow> set ys \<subseteq> set xs"
proof (induction xs arbitrary: ys)
  case Nil
  then show ?case by simp
next
  case (Cons x xs)
  then show ?case
    by (fastforce split: sum.splits if_splits)
qed

lemma array_filter_total:
  "\<forall>e \<in> set xs. \<exists>b. p e = Inr b \<Longrightarrow> \<exists>ys. array_filter p xs = Inr ys"
proof (induction xs)
  case Nil
  then show ?case by simp
next
  case (Cons x xs)
  then obtain b ys where "p x = Inr b" "array_filter p xs = Inr ys" by auto
  then show ?case by simp
qed

lemma entry_matches_strings:
  "get_prop e ''website'' = JStr w \<Longrightarrow> get_prop e ''username'' = JStr u \<Longrightarrow>
     \<exists>b. entry_matches rv t e = Inr b"
  by (cases rv) (auto simp: entry_matches_def filter_text_def js_or_def)

text \<open>
  Claim C7, amended. A filter with a term that is not blank never changes the cache, and
  what it draws when it returns is a subsequence of the cache. A filter with a blank term
  is \<^verbatim>\<open>sortAndRenderPasswords\<close>: it sorts the cache in place. When the entries hold strings
  in website, username and password and the cache is in the order of the current sort, a
  filter with a term followed by a filter with the empty term returns and leaves the cache
  as it was, drawn in full.
\<close>

theorem filter_then_clear:
  "(trim (toLowerCase term) \<noteq> [] \<longrightarrow>
      currentPasswords (snd (filterPasswords rv term st)) = currentPasswords st)
   \<and> (trim (toLowerCase term) \<noteq> [] \<and> fst (filterPasswords rv term st) = Returned \<longrightarrow>
      subseq (rendered (snd (filterPasswords rv term st))) (currentPasswords st))
   \<and> (trim (toLowerCase term) = [] \<longrightarrow> filterPasswords rv term st = sortAndRenderPasswords rv st)
   \<and> (trim (toLowerCase term) \<noteq> []
       \<and> (\<forall>e \<in> set (currentPasswords st). \<exists>w u p. get_prop e ''website'' = JStr w
             \<and> get_prop e ''username'' = JStr u \<and> get_prop e ''password'' = JStr p)
       \<and> array_sort (compareEntries rv (sortColumn st) (sortDirection st)) (currentPasswords st)
           = Inr (currentPasswords st) \<longrightarrow>
      fst (filterPasswords rv term st) = Returned
      \<and> filterPasswords rv [] (snd (filterPasswords rv term st))
          = (Returned, st\<lparr>rendered := currentPasswords st\<rparr>))"
proof -
  let ?t = "trim (toLowerCase term)"
  let ?cache = "currentPasswords st"
  have keeps: "currentPasswords (snd (filterPasswords rv term st)) = ?cache" if "?t \<noteq> []"
    using that by (simp add: filterPasswords_def Let_def render_cache split: sum.splits)
  have part: "subseq (rendered (snd (filterPasswords rv term st))) ?cache"
    if nb: "?t \<noteq> []" and ret: "fst (filterPasswords rv term st) = Returned"
  proof (cases "array_filter (entry_matches rv ?t) ?cache")
    case (Inl x)
    with ret show ?thesis by (simp add: filterPasswords_def Let_def nb)
  next
    case (Inr ys)
    with ret have "fst (renderPasswords rv ys st) = Returned"
      by (simp add: filterPasswords_def Let_def nb)
    then have "renderPasswords rv ys st = (Returned, st\<lparr>rendered := ys\<rparr>)"
      by (rule render_returned)
    with Inr show ?thesis
      by (simp add: filterPasswords_def Let_def nb array_filter_subseq)
  qed
  have blank: "filterPasswords rv term st = sortAndRenderPasswords rv st" if "?t = []"
    using that by (simp add: filterPasswords_def Let_def)
  have restore: "fst (filterPasswords rv term st) = Returned
      \<and> filterPasswords rv [] (snd (filterPasswords rv term st)) = (Returned, st\<lparr>rendered := ?cache\<rparr>)"
    if nb: "?t \<noteq> []"
      and fields: "\<forall>e \<in> set ?cache. \<exists>w u p. get_prop e ''website'' = JStr w
             \<and> get_prop e ''username'' = JStr u \<and> get_prop e ''password'' = JStr p"
      and sorted: "array_sort (compareEntries rv (sortColumn st) (sortDirection st)) ?cache = Inr ?cache"
  proof -
    from fields have "\<forall>e \<in> set ?cache. \<exists>b. entry_matches rv ?t e = Inr b"
      using entry_matches_strings by blast
    then obtain ys where ys: "array_filter (entry_matches rv ?t) ?cache = Inr ys"
      using array_filter_total by blast
    have len: "\<forall>e \<in> set ?cache. has_length (get_prop e ''password'')"
      using fields by (auto simp: has_length_def)
    have "set ys \<subseteq> set ?cache"
      by (rule array_filter_set [OF ys])
    then have "\<forall>e \<in> set ys. has_length (get_prop e ''password'')"
      using len by blast
    then have shown: "filterPasswords rv term st = (Returned, st\<lparr>rendered := ys\<rparr>)"
      using nb ys by (simp add: filterPasswords_def Let_def render_strings)
    have empty: "trim (toLowerCase []) = []"
      by (simp add: trim_def toLowerCase_def)
    have "filterPasswords rv [] (st\<lparr>rendered := ys\<rparr>) = (Returned, st\<lparr>rendered := ?cache\<rparr>)"
      using sorted len by (simp add: filterPasswords_def empty sortAndRenderPasswords_def render_strings)
    with shown show ?thesis by simp
  qed
  show ?thesis
    using keeps part blank restore by blast
qed

text \<open>
  Claim C7 as stated fails in a state where the cache is not in sorted order. With the
  sort on the username, renaming \<^verbatim>\<open>bob\<close> to \<^verbatim>\<open>zed\<close> in the edit dialog leaves the
  renamed entry in first place; the filter with the empty term then moves it behind
  \<^verbatim>\<open>carl\<close>: the filter has changed the cache.
\<close>

theorem filter_resorts_counterexample:
  "currentPasswords (snd (editSave_click Part000 True True (Some 1) ''zed'' ''p1''
       (vault_of [user_bob, user_carl] ''username''))) = [user_zed, user_carl]
   \<and> currentPasswords (snd (filterPasswords Part000 []
        (snd (editSave_click Part000 True True (Some 1) ''zed'' ''p1''
           (vault_of [user_bob, user_carl] ''username''))))) = [user_carl, user_zed]
   \<and> currentPasswords (snd (filterPasswords ScriptJs []
        (snd (editSave_click ScriptJs True True (Some 1) ''zed'' ''p1''
           (vault_of [user_bob, user_carl] ''username''))))) = [user_carl, user_zed]"
  by code_simp

theorem filter_then_clear_witness:
  "filterPasswords ScriptJs '' B.co '' (vault_of [user_bob, user_carl] ''username'')
     = (Returned, (vault_of [user_bob, user_carl] ''username'')\<lparr>rendered := [user_carl]\<rparr>)
   \<and> filterPasswords ScriptJs [] ((vault_of [user_bob, user_carl] ''username'')\<lparr>rendered := [user_carl]\<rparr>)
     = (Returned, vault_of [user_bob, user_carl] ''username'')
   \<and> subseq [user_carl] [user_bob, user_carl]"
proof -
  let ?st = "vault_of [user_bob, user_carl] ''username''"
  have t: "trim (toLowerCase '' B.co '') \<noteq> []" by code_simp
  have f: "\<forall>e \<in> set (currentPasswords ?st). \<exists>w u p. get_prop e ''website'' = JStr w
             \<and> get_prop e ''username'' = JStr u \<and> get_prop e ''password'' = JStr p"
    by (simp add: vault_of_def user_bob_def user_carl_def mk_entry_def get_prop_def)
  have s: "array_sort (compareEntries ScriptJs (sortColumn ?st) (sortDirection ?st)) (currentPasswords ?st)
           = Inr (currentPasswords ?st)" by code_simp
  have r: "filterPasswords ScriptJs '' B.co '' ?st = (Returned, ?st\<lparr>rendered := [user_carl]\<rparr>)" by code_simp
  have c: "currentPasswords ?st = [user_bob, user_carl]" "rendered ?st = [user_bob, user_carl]"
    by (simp_all add: vault_of_def)
  have e: "?st\<lparr>rendered := currentPasswords ?st\<rparr> = ?st" by (simp add: vault_of_def)
  from filter_then_clear [of "'' B.co ''" ScriptJs ?st] t f s r c e show ?thesis
    by simp
qed


section \<open>Header clicks\<close>

text \<open>
  A click on the header of the current sort column sorts with the direction turned; a click
  on another header sorts ascending by that column. The cache after a sort that does not
  raise is the sorted list.
\<close>

lemma sortAndRender_cache:
  "array_sort (compareEntries rv (sortColumn st) (sortDirection st)) (currentPasswords st) = Inr ys \<Longrightarrow>
     currentPasswords (snd (sortAndRenderPasswords rv st)) = ys"
  by (simp add: sortAndRenderPasswords_def render_cache)

lemma header_click_same_column:
  "rv = ScriptJs \<or> (attr \<noteq> None \<and> attr \<noteq> Some []) \<Longrightarrow> attr = sortColumn st \<Longrightarrow>
     header_click rv attr st = sortAndRenderPasswords rv (st\<lparr>sortDirection := flip (sortDirection st)\<rparr>)"
  by (auto simp: header_click_def)

lemma header_click_other_column:
  "rv = ScriptJs \<or> (attr \<noteq> None \<and> attr \<noteq> Some []) \<Longrightarrow> attr \<noteq> sortColumn st \<Longrightarrow>
     header_click rv attr st = sortAndRenderPasswords rv (st\<lparr>sortColumn := attr, sortDirection := Asc\<rparr>)"
  by (auto simp: header_click_def)

section \<open>Properties of updating\<close>





section \<open>Properties of the export\<close>

lemma str_includes_single: "str_includes s [c] = (c \<in> set s)"
  by (induction s) auto

lemma double_quotes_eq: "double_quotes s = double_each_quote s"
  by (induction s) (simp_all add: double_quotes_def)

lemma csvEscape_spec: "csvEscape v = spec_field (cell_text v)"
  by (simp add: csvEscape_def spec_field_def cell_text_def needs_quotes_def Let_def
      str_includes_single double_quotes_eq)

lemma join_Cons: "join sep (x # xs) = x @ concat (map (\<lambda>y. sep @ y) xs)"
  by (induction xs arbitrary: x) simp_all

text \<open>
  Claim C10. When the cache is empty, \<^verbatim>\<open>exportPasswords\<close> and \<^verbatim>\<open>exportToCSV\<close> (in either
  revision) show the message \<^verbatim>\<open>No passwords to export.\<close> and return; no file is offered and
  nothing else of the state changes.
\<close>

theorem export_refuses_empty_cache:
  assumes "currentPasswords st = []"
  shows "exportPasswords today st = (Returned, st\<lparr>alerts := alerts st @ [''No passwords to export.'']\<rparr>)
       \<and> exportToCSV rv today st = (Returned, st\<lparr>alerts := alerts st @ [''No passwords to export.'']\<rparr>)"
  using assms by (simp add: exportPasswords_def exportToCSV_def alert_def)

theorem export_refuses_empty_cache_witness:
  "exportPasswords ''2024-01-01'' fresh_vault = (Returned, fresh_vault\<lparr>alerts := [''No passwords to export.'']\<rparr>)
   \<and> exportToCSV ScriptJs ''2024-01-01'' fresh_vault = (Returned, fresh_vault\<lparr>alerts := [''No passwords to export.'']\<rparr>)
   \<and> exportToCSV Part000 ''2024-01-01'' fresh_vault = (Returned, fresh_vault\<lparr>alerts := [''No passwords to export.'']\<rparr>)
   \<and> downloads fresh_vault = []"
proof -
  have e: "currentPasswords fresh_vault = []" by (simp add: fresh_vault_def vault_of_def)
  have a: "alerts fresh_vault = []" "downloads fresh_vault = []" by (simp_all add: fresh_vault_def vault_of_def)
  from export_refuses_empty_cache [OF e, of "''2024-01-01''" ScriptJs]
       export_refuses_empty_cache [OF e, of "''2024-01-01''" Part000] a
  show ?thesis by simp
qed

lemma length_double_each_quote: "length s \<le> length (double_each_quote s)"
  by (induction s) auto

lemma spec_field_verbatim: "(spec_field s = s) = (\<not> needs_quotes s)"
proof (cases "needs_quotes s")
  case True
  have "length (spec_field s) = length (double_each_quote s) + 2"
    using True by (simp add: spec_field_def)
  then have "length (spec_field s) \<noteq> length s"
    using length_double_each_quote [of s] by simp
  then have "spec_field s \<noteq> s" by auto
  with True show ?thesis by simp
next
  case False
  then show ?thesis by (simp add: spec_field_def)
qed

text \<open>
  Claim C3, amended. For every cache that is not empty, \<^verbatim>\<open>exportToCSV\<close> of \<^verbatim>\<open>part_000\<close>
  offers one file whose content is the text the specification describes: the header, then
  one row per entry, joined by CRLF, each field wrapped in quotes with its quotes doubled
  if and only if it contains a quote, a comma or a newline.
\<close>

theorem exportToCSV_quoting:
  assumes "currentPasswords st \<noteq> []"
  shows "exportToCSV Part000 today st
           = (Returned, st\<lparr>downloads := downloads st
                @ [(''passwords-backup-'' @ today @ ''.csv'', spec_csv (currentPasswords st))]\<rparr>)
       \<and> (spec_field s = s) = (\<not> needs_quotes s)
       \<and> (needs_quotes s \<longrightarrow> spec_field s = [dquote] @ double_each_quote s @ [dquote])"
proof -
  have row: "join '','' (map (\<lambda>fieldName. csv_cell Part000 (get_prop e fieldName)) csv_headers) = spec_row e" for e
    by (simp add: csv_headers_def csv_cell_def csvEscape_spec spec_row_def)
  have "join [CR, LF] (join '','' csv_headers # map spec_row (currentPasswords st)) = spec_csv (currentPasswords st)"
    by (simp add: join_Cons spec_csv_def csv_headers_def comp_def)
  then have "exportToCSV Part000 today st
           = (Returned, st\<lparr>downloads := downloads st
                @ [(''passwords-backup-'' @ today @ ''.csv'', spec_csv (currentPasswords st))]\<rparr>)"
    using assms by (simp add: exportToCSV_def row download_def Let_def)
  then show ?thesis
    using spec_field_verbatim by (simp add: spec_field_def)
qed

text \<open>
  Claim C3 as stated fails for the empty cache: the specification's text for it is the
  header alone, but the export offers no file at all.
\<close>

theorem exportToCSV_empty_counterexample:
  "exportToCSV Part000 ''2024-01-01'' fresh_vault = (Returned, alert ''No passwords to export.'' fresh_vault)
   \<and> downloads (snd (exportToCSV Part000 ''2024-01-01'' fresh_vault)) = []
   \<and> downloads (snd (exportToCSV ScriptJs ''2024-01-01'' fresh_vault)) = []
   \<and> spec_csv (currentPasswords fresh_vault) = ''website,username,password''"
  by code_simp

theorem exportToCSV_quoting_witness:
  "downloads (snd (exportToCSV Part000 ''2024-01-01'' (vault_of [quoted_entry, site_a] ''website'')))
     = [(''passwords-backup-2024-01-01.csv'',
         ''website,username,password'' @ [CR, LF] @
         ''a.com,'' @ [dquote] @ ''user,one'' @ [dquote] @ '','' @ [dquote] @ ''pa'' @ [dquote, dquote] @ ''ss'' @ [dquote]
         @ [CR, LF] @ ''a.com,u2,p2'')]
   \<and> spec_field ''user,one'' = [dquote] @ ''user,one'' @ [dquote]"
proof -
  let ?st = "vault_of [quoted_entry, site_a] ''website''"
  have n: "currentPasswords ?st \<noteq> []" by (simp add: vault_of_def)
  have c: "spec_csv (currentPasswords ?st) = ''website,username,password'' @ [CR, LF] @
         ''a.com,'' @ [dquote] @ ''user,one'' @ [dquote] @ '','' @ [dquote] @ ''pa'' @ [dquote, dquote] @ ''ss'' @ [dquote]
         @ [CR, LF] @ ''a.com,u2,p2''" by code_simp
  have d: "downloads ?st = []" by (simp add: vault_of_def)
  have q: "needs_quotes ''user,one''" by code_simp
  have dd: "double_each_quote ''user,one'' = ''user,one''" by code_simp
  from exportToCSV_quoting [OF n, of "''2024-01-01''" "''user,one''"] c d q dd show ?thesis by simp
qed

text \<open>
  \<^verbatim>\<open>exportToCSV\<close> of \<^verbatim>\<open>script.js\<close> writes every string field in quotes and escapes a
  quote with a backslash. Its own \<^verbatim>\<open>parseCSV\<close> reads that file back with the quotes as part
  of the values and without the row whose username holds a comma. The export of
  \<^verbatim>\<open>part_000\<close> is read back by the parser of \<^verbatim>\<open>part_000\<close> as it was written.
\<close>

lemma exportToCSV_script_quotes_all:
  "downloads (snd (exportToCSV ScriptJs ''2024-01-01'' (vault_of [site_a, quoted_entry] ''website'')))
     = [(''passwords-backup-2024-01-01.csv'', script_export_text)]
   \<and> parseCSV script_export_text
     = [[(''website'', JStr ([dquote] @ ''a.com'' @ [dquote])), (''username'', JStr ([dquote] @ ''u2'' @ [dquote])),
         (''password'', JStr ([dquote] @ ''p2'' @ [dquote]))]]"
  by code_simp

lemma exportToCSV_part000_read_back:
  "downloads (snd (exportToCSV Part000 ''2024-01-01'' (vault_of [site_a, quoted_entry] ''website'')))
     = [(''passwords-backup-2024-01-01.csv'', part000_export_text)]
   \<and> parseCSV2 part000_export_text
     = [[(''website'', JStr ''a.com''), (''username'', JStr ''u2''), (''password'', JStr ''p2'')],
        [(''website'', JStr ''a.com''), (''username'', JStr ''user,one''),
         (''password'', JStr (''pa'' @ [dquote] @ ''ss''))]]"
  by code_simp

section \<open>Properties of the import\<close>




text \<open>What failing the validation means, and what the two revisions do with a \<^verbatim>\<open>null\<close> element.\<close>

lemma is_valid_False:
  "(is_valid Part000 p = Inr False)
     = (case p of ItemObject e \<Rightarrow> \<not> (truthy (get_prop e ''website'') \<and> truthy (get_prop e ''username'')
                                      \<and> truthy (get_prop e ''password''))
        | _ \<Rightarrow> True)"
  by (cases p) (simp_all add: is_valid_def)

lemma import_null_item:
  "importPasswords ScriptJs True True (Some (JsonFile (JsonArray [ItemNull]))) fresh_vault
     = (Returned, fresh_vault\<lparr>alerts := [''Error reading or parsing the file. Make sure it is a valid JSON file.'']\<rparr>)
   \<and> importPasswords Part000 True True (Some (JsonFile (JsonArray [ItemNull]))) fresh_vault
     = (Returned, fresh_vault\<lparr>alerts := [''No valid password entries found in the file.'']\<rparr>)"
  by code_simp
















end
